theory Spec2Isabelle
  imports Main "HOL-Library.Sublist"
begin

section \<open>The relay bot of \<^verbatim>\<open>main.py\<close>: data\<close>

text \<open>
  The program is five handlers over four MongoDB collections, one call to a generative
  model and replies through the messaging platform. The collaborators (store, model,
  platform, clock) are not part of the program: how they answer during one handler
  invocation is a parameter, the record \<open>world\<close> below. A call that raises has no
  effect on the store or the chat, and what it raises is an \<^verbatim>\<open>Exception\<close>, the
  class the handlers' \<^verbatim>\<open>except\<close> clauses catch.
\<close>

datatype exn =
  IndexError          \<comment> \<open>\<^verbatim>\<open>photo[-1]\<close> on an empty list\<close>
| Failure string      \<comment> \<open>raised by a collaborator; the string is \<^verbatim>\<open>str(e)\<close>\<close>

fun exn_str :: "exn \<Rightarrow> string" where
  "exn_str IndexError = ''list index out of range''"
| "exn_str (Failure m) = m"

text \<open>\<^verbatim>\<open>update.effective_user\<close>: \<^verbatim>\<open>id\<close>, \<^verbatim>\<open>first_name\<close>, \<^verbatim>\<open>username\<close> (optional).\<close>

record tg_user =
  tg_id :: int
  tg_first_name :: string
  tg_username :: "string option"

text \<open>\<^verbatim>\<open>update.message.contact\<close>: the platform declares \<^verbatim>\<open>user_id\<close> optional.\<close>

record contact =
  contact_user_id :: "int option"
  contact_phone_number :: string

text \<open>
  The attachment classes of the platform library. A \<^verbatim>\<open>Document\<close> always carries the
  attribute \<^verbatim>\<open>file_name\<close>, set to \<^verbatim>\<open>None\<close> when the sender declared no name; a
  \<^verbatim>\<open>PhotoSize\<close> has no such attribute.
\<close>

datatype document = Document (doc_file_name: "string option")

datatype photo_size = PhotoSize (width: nat) (height: nat)

datatype attached = DocumentFile document | PhotoFile photo_size

text \<open>The documents of the four collections, with the keys the handlers write.\<close>

record user_doc =
  first_name :: string
  username :: "string option"
  chat_id :: int
  phone_number :: "string option"   \<comment> \<open>\<open>None\<close>: the key is absent\<close>

record chat_doc =
  ch_chat_id :: int
  user_input :: string
  bot_response :: string
  ch_timestamp :: nat

record file_doc =
  file_name :: "string option"      \<comment> \<open>\<open>None\<close>: Python's \<^verbatim>\<open>None\<close>, stored as null\<close>
  f_chat_id :: int
  description :: string
  f_timestamp :: nat

record search_doc =
  ws_chat_id :: int
  query :: string
  results :: string
  ws_timestamp :: nat

text \<open>Replies: the text and, for the registration reply, the keyboard.\<close>

record keyboard_button =
  label :: string
  request_contact :: bool

record reply_keyboard =
  keyboard :: "keyboard_button list list"
  resize_keyboard :: bool

record outgoing =
  msg_text :: string
  reply_markup :: "reply_keyboard option"

definition plain :: "string \<Rightarrow> outgoing" where
  "plain t = \<lparr>msg_text = t, reply_markup = None\<rparr>"

datatype level = INFO | ERROR

text \<open>
  Everything a handler can change: the collections of \<^verbatim>\<open>db\<close>, the files written by
  \<^verbatim>\<open>download()\<close>, the replies delivered and the log.
\<close>

record bot =
  db_users :: "user_doc list"
  db_chat_history :: "chat_doc list"
  db_files :: "file_doc list"
  db_web_search :: "search_doc list"
  local_files :: "attached list"
  sent :: "outgoing list"
  log :: "(level \<times> string) list"

definition init_bot :: bot where
  "init_bot = \<lparr>db_users = [], db_chat_history = [], db_files = [], db_web_search = [],
     local_files = [], sent = [], log = []\<rparr>"

text \<open>
  How the collaborators answer during one handler invocation. \<open>Some e\<close> says that the
  call raises \<open>e\<close>. No handler makes one of these calls twice, \<^verbatim>\<open>reply_text\<close> apart,
  which is called once in the body and once in the \<^verbatim>\<open>except\<close> clause.
\<close>

record world =
  find_one_raises :: "exn option"
  insert_one_raises :: "exn option"
  update_one_raises :: "exn option"
  gemini_chat :: "exn + string"      \<comment> \<open>\<^verbatim>\<open>gemini.chat(...)["text"]\<close>\<close>
  download_raises :: "exn option"    \<comment> \<open>\<^verbatim>\<open>file.get_file().download()\<close>\<close>
  reply_raises :: "exn option"       \<comment> \<open>\<^verbatim>\<open>reply_text\<close> of the body\<close>
  apology_raises :: "exn option"     \<comment> \<open>\<^verbatim>\<open>reply_text\<close> of the \<^verbatim>\<open>except\<close> clause\<close>
  utcnow :: nat

section \<open>Control: sequencing and \<^verbatim>\<open>try\<close>/\<^verbatim>\<open>except\<close>\<close>

text \<open>
  A statement takes the state to the state it leaves and the exception that leaves it,
  if any.
\<close>

type_synonym stmt = "bot \<Rightarrow> bot \<times> exn option"

definition and_then :: "bot \<times> exn option \<Rightarrow> stmt \<Rightarrow> bot \<times> exn option" where
  "and_then r k = (case r of (s, None) \<Rightarrow> k s | (s, Some e) \<Rightarrow> (s, Some e))"

definition try_except :: "stmt \<Rightarrow> (exn \<Rightarrow> stmt) \<Rightarrow> stmt" where
  "try_except body handler s =
     (case body s of (s', None) \<Rightarrow> (s', None) | (s', Some e) \<Rightarrow> handler e s')"

definition raising :: "exn option \<Rightarrow> (bot \<Rightarrow> bot) \<Rightarrow> stmt" where
  "raising outcome effect s =
     (case outcome of Some e \<Rightarrow> (s, Some e) | None \<Rightarrow> (effect s, None))"

definition reply_text :: "exn option \<Rightarrow> outgoing \<Rightarrow> stmt" where
  "reply_text outcome msg = raising outcome (\<lambda>s. s\<lparr>sent := sent s @ [msg]\<rparr>)"

definition logging_info :: "string \<Rightarrow> bot \<Rightarrow> bot" where
  "logging_info msg s = s\<lparr>log := log s @ [(INFO, msg)]\<rparr>"

definition logging_error :: "string \<Rightarrow> bot \<Rightarrow> bot" where
  "logging_error msg s = s\<lparr>log := log s @ [(ERROR, msg)]\<rparr>"

text \<open>An optional string inside an f-string: \<^verbatim>\<open>None\<close> prints as \<^verbatim>\<open>None\<close>.\<close>

fun py_str :: "string option \<Rightarrow> string" where
  "py_str None = ''None''"
| "py_str (Some t) = t"

text \<open>\<^verbatim>\<open>sep.join(xs)\<close>.\<close>

fun join :: "string \<Rightarrow> string list \<Rightarrow> string" where
  "join sep [] = []"
| "join sep [x] = x"
| "join sep (x # y # ys) = x @ sep @ join sep (y # ys)"

section \<open>The users collection\<close>

text \<open>
  \<^verbatim>\<open>db.users.find_one({"chat_id": k})\<close>: the first document with that key.
  \<^verbatim>\<open>db.users.update_one({"chat_id": k}, {"$set": {"phone_number": p}})\<close>: sets the
  field in the first document that matches and inserts nothing when none does. The
  key of the filter may be \<^verbatim>\<open>None\<close>; every document of the collection was written by
  \<open>start\<close> with an integer \<^verbatim>\<open>chat_id\<close>, so \<^verbatim>\<open>None\<close> matches none.
\<close>

definition users_find_one :: "int \<Rightarrow> user_doc list \<Rightarrow> user_doc option" where
  "users_find_one k us = List.find (\<lambda>u. chat_id u = k) us"

fun users_update_one :: "int option \<Rightarrow> string \<Rightarrow> user_doc list \<Rightarrow> user_doc list" where
  "users_update_one k p [] = []"
| "users_update_one k p (u # us) =
     (if Some (chat_id u) = k then u\<lparr>phone_number := Some p\<rparr> # us
      else u # users_update_one k p us)"

section \<open>The handlers\<close>

text \<open>
  \<open>start\<close> (lines 34 to 49): look the sender up, insert a row and log when there is
  none, then send the registration reply with the contact button. Nothing is caught.
\<close>

definition contact_button :: reply_keyboard where
  "contact_button =
     \<lparr>keyboard = [[\<lparr>label = ''Share Phone Number'', request_contact = True\<rparr>]],
      resize_keyboard = True\<rparr>"

definition start :: "world \<Rightarrow> tg_user \<Rightarrow> stmt" where
  "start w user s =
     (let cid = tg_id user in
      and_then
        (and_then
           (raising (find_one_raises w) (\<lambda>s. s) s)
           (\<lambda>s. if users_find_one cid (db_users s) = None
                then raising (insert_one_raises w)
                       (\<lambda>s. logging_info (''New user registered: '' @ py_str (tg_username user))
                          (s\<lparr>db_users := db_users s @
                              [\<lparr>first_name = tg_first_name user, username = tg_username user,
                                chat_id = cid, phone_number = None\<rparr>]\<rparr>)) s
                else (s, None)))
        (reply_text (reply_raises w)
           \<lparr>msg_text = ''Welcome! Please share your phone number to complete registration.'',
            reply_markup = Some contact_button\<rparr>))"

text \<open>
  \<open>contact_handler\<close> (lines 52 to 57): one \<^verbatim>\<open>update_one\<close> keyed on the contact's
  \<^verbatim>\<open>user_id\<close>, then the thank-you reply. Nothing is caught.
\<close>

definition contact_handler :: "world \<Rightarrow> contact \<Rightarrow> stmt" where
  "contact_handler w c s =
     and_then
       (raising (update_one_raises w)
          (\<lambda>s. s\<lparr>db_users :=
                   users_update_one (contact_user_id c) (contact_phone_number c) (db_users s)\<rparr>) s)
       (reply_text (reply_raises w) (plain ''Thank you! Your phone number has been saved.''))"

text \<open>
  \<open>chat_handler\<close> (lines 60 to 78): the generative call, the insert and the reply are
  the body of one \<^verbatim>\<open>try\<close>; the \<^verbatim>\<open>except\<close> clause logs and sends the apology.
\<close>

definition chat_handler :: "world \<Rightarrow> int \<Rightarrow> string \<Rightarrow> stmt" where
  "chat_handler w cid user_message =
     try_except
       (\<lambda>s. case gemini_chat w of
               Inl e \<Rightarrow> (s, Some e)
             | Inr gemini_response \<Rightarrow>
                 and_then
                   (raising (insert_one_raises w)
                      (\<lambda>s. s\<lparr>db_chat_history := db_chat_history s @
                               [\<lparr>ch_chat_id = cid, user_input = user_message,
                                 bot_response = gemini_response, ch_timestamp = utcnow w\<rparr>]\<rparr>) s)
                   (reply_text (reply_raises w) (plain gemini_response)))
       (\<lambda>e s. reply_text (apology_raises w) (plain ''Sorry, I couldn't process that right now.'')
                 (logging_error (''Gemini API error: '' @ exn_str e) s))"

text \<open>
  \<^verbatim>\<open>update.message.document or update.message.photo[-1]\<close>, then
  \<^verbatim>\<open>hasattr(file, 'file_name')\<close>, which holds of every \<^verbatim>\<open>Document\<close> and of no
  \<^verbatim>\<open>PhotoSize\<close>.
\<close>

definition pick_file :: "document option \<Rightarrow> photo_size list \<Rightarrow> exn + attached" where
  "pick_file doc photo =
     (case doc of
        Some d \<Rightarrow> Inr (DocumentFile d)
      | None \<Rightarrow> if photo = [] then Inl IndexError else Inr (PhotoFile (last photo)))"

fun display_name :: "attached \<Rightarrow> string option" where
  "display_name (DocumentFile d) = doc_file_name d"
| "display_name (PhotoFile p) = Some ''photo.jpg''"

text \<open>
  \<open>file_handler\<close> (lines 81 to 103): the file is picked, named and downloaded before
  the \<^verbatim>\<open>try\<close>; the body of the \<^verbatim>\<open>try\<close> is the description, the insert and the reply.
\<close>

definition file_handler :: "world \<Rightarrow> int \<Rightarrow> document option \<Rightarrow> photo_size list \<Rightarrow> stmt" where
  "file_handler w cid doc photo s =
     (case pick_file doc photo of
        Inl e \<Rightarrow> (s, Some e)
      | Inr file \<Rightarrow>
          (let fname = display_name file in
           and_then
             (raising (download_raises w) (\<lambda>s. s\<lparr>local_files := local_files s @ [file]\<rparr>) s)
             (try_except
                (\<lambda>s. let gemini_analysis =
                            ''Analysis of '' @ py_str fname @ '' completed by Gemini AI.'' in
                      and_then
                        (raising (insert_one_raises w)
                           (\<lambda>s. s\<lparr>db_files := db_files s @
                                    [\<lparr>file_name = fname, f_chat_id = cid,
                                      description = gemini_analysis,
                                      f_timestamp = utcnow w\<rparr>]\<rparr>) s)
                        (reply_text (reply_raises w)
                           (plain (''File analyzed: '' @ gemini_analysis))))
                (\<lambda>e s. reply_text (apology_raises w)
                          (plain ''Sorry, I couldn't analyze the file.'')
                          (logging_error (''File analysis error: '' @ exn_str e) s)))))"

text \<open>
  \<open>web_search\<close> (lines 106 to 124): an empty query gets the usage reply and returns;
  otherwise the result string, the insert and the reply are the body of the \<^verbatim>\<open>try\<close>.
\<close>

definition search_results_for :: "string \<Rightarrow> string" where
  "search_results_for q = ''Results for '' @ [CHR 0x27] @ q @ [CHR 0x27] @ '' retrieved by AI.''"

definition web_search :: "world \<Rightarrow> int \<Rightarrow> string list \<Rightarrow> stmt" where
  "web_search w cid args s =
     (let q = join '' '' args in
      if q = [] then
        reply_text (reply_raises w) (plain ''Please provide a query after /websearch.'') s
      else
        try_except
          (\<lambda>s. let search_results = search_results_for q in
                and_then
                  (raising (insert_one_raises w)
                     (\<lambda>s. s\<lparr>db_web_search := db_web_search s @
                              [\<lparr>ws_chat_id = cid, query = q, results = search_results,
                                ws_timestamp = utcnow w\<rparr>]\<rparr>) s)
                  (reply_text (reply_raises w) (plain search_results)))
          (\<lambda>e s. reply_text (apology_raises w)
                    (plain ''Sorry, I couldn't perform the web search.'')
                    (logging_error (''Web search error: '' @ exn_str e) s))
          s)"

section \<open>The arguments of a command\<close>

text \<open>
  The handler reads \<^verbatim>\<open>context.args\<close>. The platform library fills it, before the handler
  runs, with \<^verbatim>\<open>message.text.split()[1:]\<close>: the maximal runs of characters that are
  not whitespace, the command itself dropped. Which characters are whitespace is the
  parameter \<open>sp\<close>; \<open>py_space\<close> is Python's whitespace within ASCII.
\<close>

fun split_from :: "(char \<Rightarrow> bool) \<Rightarrow> string \<Rightarrow> string \<Rightarrow> string list" where
  "split_from sp cur [] = (if cur = [] then [] else [cur])"
| "split_from sp cur (c # cs) =
     (if sp c then (if cur = [] then split_from sp [] cs else cur # split_from sp [] cs)
      else split_from sp (cur @ [c]) cs)"

definition py_split :: "(char \<Rightarrow> bool) \<Rightarrow> string \<Rightarrow> string list" where
  "py_split sp t = split_from sp [] t"

definition command_args :: "(char \<Rightarrow> bool) \<Rightarrow> string \<Rightarrow> string list" where
  "command_args sp t = tl (py_split sp t)"

definition py_space :: "char \<Rightarrow> bool" where
  "py_space c = (c \<in> set [CHR '' '', CHR 0x09, CHR 0x0A, CHR 0x0B, CHR 0x0C, CHR 0x0D,
     CHR 0x1C, CHR 0x1D, CHR 0x1E, CHR 0x1F])"

section \<open>The dispatcher\<close>

text \<open>
  The events that \<^verbatim>\<open>main\<close> routes, each with what its handler reads and the chat it
  came from: \<^verbatim>\<open>/start\<close>, \<^verbatim>\<open>/websearch\<close> with its arguments, a shared contact, a
  text message, a document or photo message. Handlers run one after the other; an
  exception that leaves a handler ends that handler only.
\<close>

datatype event =
  StartCommand tg_user
| WebsearchCommand int "string list"
| ContactMessage int contact
| TextMessage int string
| FileMessage int "document option" "photo_size list"

fun dispatch :: "world \<Rightarrow> event \<Rightarrow> stmt" where
  "dispatch w (StartCommand user) = start w user"
| "dispatch w (WebsearchCommand cid args) = web_search w cid args"
| "dispatch w (ContactMessage sender c) = contact_handler w c"
| "dispatch w (TextMessage cid t) = chat_handler w cid t"
| "dispatch w (FileMessage cid doc photo) = file_handler w cid doc photo"

fun run :: "(world \<times> event) list \<Rightarrow> bot \<Rightarrow> bot" where
  "run [] s = s"
| "run ((w, ev) # evs) s = run evs (fst (dispatch w ev s))"

text \<open>At most one row of the users collection for each \<^verbatim>\<open>chat_id\<close>.\<close>

definition users_unique :: "bot \<Rightarrow> bool" where
  "users_unique s = distinct (map chat_id (db_users s))"

definition rows_of :: "int \<Rightarrow> bot \<Rightarrow> user_doc list" where
  "rows_of k s = filter (\<lambda>u. chat_id u = k) (db_users s)"

section \<open>Concrete inputs\<close>

definition w_ok :: world where
  "w_ok = \<lparr>find_one_raises = None, insert_one_raises = None, update_one_raises = None,
     gemini_chat = Inr ''hi there'', download_raises = None, reply_raises = None,
     apology_raises = None, utcnow = 1700000000\<rparr>"

definition alice :: tg_user where
  "alice = \<lparr>tg_id = 1, tg_first_name = ''Alice'', tg_username = Some ''alice''\<rparr>"

definition bob :: tg_user where
  "bob = \<lparr>tg_id = 2, tg_first_name = ''Bob'', tg_username = None\<rparr>"

definition w_gemini_fails :: world where
  "w_gemini_fails = w_ok\<lparr>gemini_chat := Inl (Failure ''503 unavailable'')\<rparr>"

definition w_reply_fails :: world where
  "w_reply_fails = w_ok\<lparr>reply_raises := Some (Failure ''Message is too long'')\<rparr>"

definition alice_contact :: contact where
  "alice_contact = \<lparr>contact_user_id = Some 1, contact_phone_number = ''+1555''\<rparr>"

definition stranger_contact :: contact where
  "stranger_contact = \<lparr>contact_user_id = Some 99, contact_phone_number = ''+1999''\<rparr>"

definition two_users :: bot where
  "two_users = init_bot\<lparr>db_users :=
     [\<lparr>first_name = ''Alice'', username = Some ''alice'', chat_id = 1, phone_number = None\<rparr>,
      \<lparr>first_name = ''Bob'', username = None, chat_id = 2, phone_number = None\<rparr>]\<rparr>"

definition bob_shares_alice :: event where
  "bob_shares_alice = ContactMessage 2 alice_contact"

definition w_download_fails :: world where
  "w_download_fails = w_ok\<lparr>download_raises := Some (Failure ''Timed out'')\<rparr>"

section \<open>Properties\<close>

lemmas stmt_defs = and_then_def try_except_def raising_def reply_text_def
  logging_info_def logging_error_def

lemma users_find_one_None: "users_find_one k us = None \<longleftrightarrow> k \<notin> chat_id ` set us"
  by (auto simp: users_find_one_def find_None_iff)

lemma chat_ids_users_update_one: "map chat_id (users_update_one k p us) = map chat_id us"
  by (induction us) auto

lemma length_users_update_one: "length (users_update_one k p us) = length us"
  by (induction us) auto

lemma chat_ids_start:
  "map chat_id (db_users (fst (start w user s))) =
     (if find_one_raises w = None \<and> insert_one_raises w = None \<and> tg_id user \<notin> chat_id ` set (db_users s)
      then map chat_id (db_users s) @ [tg_id user] else map chat_id (db_users s))"
  by (auto simp: start_def stmt_defs users_find_one_None Let_def split: option.splits)

lemma db_users_chat_handler: "db_users (fst (chat_handler w cid t s)) = db_users s"
  by (auto simp: chat_handler_def stmt_defs split: option.splits sum.splits)

lemma db_users_file_handler: "db_users (fst (file_handler w cid doc photo s)) = db_users s"
  by (auto simp: file_handler_def stmt_defs Let_def split: option.splits sum.splits)

lemma db_users_web_search: "db_users (fst (web_search w cid args s)) = db_users s"
  by (auto simp: web_search_def stmt_defs Let_def split: option.splits sum.splits)

lemma chat_ids_contact_handler:
  "map chat_id (db_users (fst (contact_handler w c s))) = map chat_id (db_users s)"
  by (auto simp: contact_handler_def stmt_defs chat_ids_users_update_one split: option.splits)

lemma chat_ids_dispatch:
  "map chat_id (db_users (fst (dispatch w ev s))) = map chat_id (db_users s) \<or>
   (\<exists>k. k \<notin> chat_id ` set (db_users s) \<and>
        map chat_id (db_users (fst (dispatch w ev s))) = map chat_id (db_users s) @ [k])"
  by (cases ev)
     (auto simp: chat_ids_start chat_ids_contact_handler db_users_chat_handler
        db_users_file_handler db_users_web_search)

lemma users_unique_dispatch: "users_unique s \<Longrightarrow> users_unique (fst (dispatch w ev s))"
  using chat_ids_dispatch [of w ev s] by (auto simp: users_unique_def)

lemma users_unique_run: "users_unique s \<Longrightarrow> users_unique (run evs s)"
  by (induction evs arbitrary: s) (auto simp: users_unique_dispatch)

lemma filter_key_distinct:
  "distinct (map f xs) \<Longrightarrow> length (filter (\<lambda>u. f u = k) xs) \<le> 1"
proof (induction xs)
  case Nil
  then show ?case by simp
next
  case (Cons x xs)
  show ?case
  proof (cases "f x = k")
    case True
    with Cons.prems have "k \<notin> f ` set xs" by auto
    then have "filter (\<lambda>u. f u = k) xs = []" by (auto simp: filter_empty_conv)
    with True show ?thesis by simp
  next
    case False
    with Cons show ?thesis by simp
  qed
qed

lemma rows_of_unique: "users_unique s \<Longrightarrow> length (rows_of k s) \<le> 1"
  using filter_key_distinct [of chat_id "db_users s" k]
  by (simp add: users_unique_def rows_of_def)

text \<open>
  C3. At most one row per \<^verbatim>\<open>chat_id\<close> is an invariant of the users collection: it holds
  of the empty store, every handler invocation preserves it whatever the collaborators
  answer, and so it holds after every sequence of events, where it bounds the number of
  rows of each \<^verbatim>\<open>chat_id\<close> by one.
\<close>
theorem users_unique_invariant:
  "users_unique init_bot \<and>
   (users_unique s \<longrightarrow> users_unique (fst (dispatch w ev s))) \<and>
   users_unique (run evs init_bot) \<and>
   length (rows_of k (run evs init_bot)) \<le> 1"
proof -
  have init: "users_unique init_bot" by (simp add: users_unique_def init_bot_def)
  then have reach: "users_unique (run evs init_bot)" by (rule users_unique_run)
  from reach have "length (rows_of k (run evs init_bot)) \<le> 1" by (rule rows_of_unique)
  with init reach show ?thesis
    by (simp add: users_unique_dispatch)
qed

text \<open>The invariant at work: two registrations, one after the other.\<close>
theorem users_unique_invariant_witness:
  "users_unique (fst (start w_ok alice init_bot)) \<and>
   users_unique (fst (dispatch w_ok (StartCommand bob) (fst (start w_ok alice init_bot)))) \<and>
   map chat_id (db_users (fst (dispatch w_ok (StartCommand bob) (fst (start w_ok alice init_bot))))) = [1, 2]"
proof -
  have s: "users_unique (fst (start w_ok alice init_bot))"
    by (simp add: users_unique_def start_def stmt_defs users_find_one_def init_bot_def
        w_ok_def alice_def)
  have m: "map chat_id (db_users (fst (dispatch w_ok (StartCommand bob) (fst (start w_ok alice init_bot))))) = [1, 2]"
    by (simp add: start_def stmt_defs users_find_one_def init_bot_def w_ok_def alice_def bob_def)
  from s m users_unique_invariant [of "fst (start w_ok alice init_bot)" w_ok "StartCommand bob" "[]" 0]
  show ?thesis by blast
qed


lemma length_rows_of:
  "length (rows_of k s) = length (filter (\<lambda>x. x = k) (map chat_id (db_users s)))"
  by (simp add: rows_of_def filter_map o_def)

lemma rows_of_dispatch:
  assumes "k \<in> chat_id ` set (db_users s)"
  shows "length (rows_of k (fst (dispatch w ev s))) = length (rows_of k s) \<and>
         k \<in> chat_id ` set (db_users (fst (dispatch w ev s)))"
proof -
  from chat_ids_dispatch [of w ev s] show ?thesis
  proof
    assume same: "map chat_id (db_users (fst (dispatch w ev s))) = map chat_id (db_users s)"
    from arg_cong [OF same, of set]
    have "chat_id ` set (db_users (fst (dispatch w ev s))) = chat_id ` set (db_users s)"
      by simp
    with assms same show ?thesis by (simp add: length_rows_of)
  next
    assume "\<exists>k'. k' \<notin> chat_id ` set (db_users s) \<and>
      map chat_id (db_users (fst (dispatch w ev s))) = map chat_id (db_users s) @ [k']"
    then obtain k' where fresh: "k' \<notin> chat_id ` set (db_users s)"
      and app: "map chat_id (db_users (fst (dispatch w ev s))) = map chat_id (db_users s) @ [k']"
      by blast
    from fresh assms have "k' \<noteq> k" by blast
    moreover from arg_cong [OF app, of set]
    have "chat_id ` set (db_users (fst (dispatch w ev s))) = insert k' (chat_id ` set (db_users s))"
      by simp
    ultimately show ?thesis using assms app by (simp add: length_rows_of)
  qed
qed

lemma rows_of_run:
  "k \<in> chat_id ` set (db_users s) \<Longrightarrow> length (rows_of k (run evs s)) = length (rows_of k s)"
proof (induction evs arbitrary: s)
  case Nil
  then show ?case by simp
next
  case (Cons a evs)
  obtain w ev where a: "a = (w, ev)" by (cases a)
  from Cons.prems rows_of_dispatch [of k s w ev]
  have "length (rows_of k (fst (dispatch w ev s))) = length (rows_of k s)"
    and "k \<in> chat_id ` set (db_users (fst (dispatch w ev s)))" by simp_all
  with Cons.IH [of "fst (dispatch w ev s)"] a show ?case by simp
qed

lemma start_registered:
  "tg_id user \<in> chat_id ` set (db_users s) \<Longrightarrow> db_users (fst (start w user s)) = db_users s"
  by (auto simp: start_def stmt_defs users_find_one_None Let_def split: option.splits)

text \<open>
  C2. When the store answers, \<open>start\<close> for a \<^verbatim>\<open>chat_id\<close> that the users collection
  does not hold appends exactly one row, with no phone number. A further \<open>start\<close> for
  that \<^verbatim>\<open>chat_id\<close> leaves the collection as it is, whatever the collaborators answer,
  and after any sequence of events that follows the first invocation the collection
  holds exactly one row of that \<^verbatim>\<open>chat_id\<close>.
\<close>
theorem start_registers_once:
  assumes "tg_id user \<notin> chat_id ` set (db_users s)"
      and "find_one_raises w = None" and "insert_one_raises w = None"
  shows "db_users (fst (start w user s)) =
           db_users s @ [\<lparr>first_name = tg_first_name user, username = tg_username user,
                          chat_id = tg_id user, phone_number = None\<rparr>] \<and>
         (tg_id user' = tg_id user \<longrightarrow>
            db_users (fst (start w' user' (fst (start w user s)))) = db_users (fst (start w user s))) \<and>
         length (rows_of (tg_id user) (run evs (fst (start w user s)))) = 1"
proof -
  let ?s1 = "fst (start w user s)"
  from assms have first: "db_users ?s1 =
      db_users s @ [\<lparr>first_name = tg_first_name user, username = tg_username user,
                     chat_id = tg_id user, phone_number = None\<rparr>]"
    by (auto simp: start_def stmt_defs users_find_one_None Let_def split: option.splits)
  then have present: "tg_id user \<in> chat_id ` set (db_users ?s1)" by simp
  have again: "db_users (fst (start w' user' ?s1)) = db_users ?s1" if "tg_id user' = tg_id user"
    using present that start_registered [of user' ?s1 w'] by simp
  from assms(1) have "filter (\<lambda>u. chat_id u = tg_id user) (db_users s) = []"
    unfolding filter_empty_conv by (metis imageI)
  with first have "length (rows_of (tg_id user) ?s1) = 1"
    by (simp add: rows_of_def)
  with rows_of_run [OF present, of evs]
  have "length (rows_of (tg_id user) (run evs ?s1)) = 1" by simp
  with first again show ?thesis by blast
qed

text \<open>Alice registers in the empty store, then sends \<^verbatim>\<open>/start\<close> again.\<close>
theorem start_registers_once_witness:
  "db_users (fst (start w_ok alice init_bot)) =
     [\<lparr>first_name = ''Alice'', username = Some ''alice'', chat_id = 1, phone_number = None\<rparr>] \<and>
   db_users (fst (start w_ok alice (fst (start w_ok alice init_bot)))) =
     db_users (fst (start w_ok alice init_bot)) \<and>
   length (rows_of 1 (run [(w_ok, StartCommand alice)] (fst (start w_ok alice init_bot)))) = 1"
proof -
  have h1: "tg_id alice \<notin> chat_id ` set (db_users init_bot)" by (simp add: init_bot_def)
  have h2: "find_one_raises w_ok = None" and h3: "insert_one_raises w_ok = None"
    by (simp_all add: w_ok_def)
  from start_registers_once [OF h1 h2 h3, of alice w_ok "[(w_ok, StartCommand alice)]"]
  show ?thesis by (simp add: alice_def init_bot_def)
qed


lemma chat_handler_success:
  "gemini_chat w = Inr resp \<Longrightarrow> insert_one_raises w = None \<Longrightarrow> reply_raises w = None \<Longrightarrow>
   chat_handler w cid t s =
     (s\<lparr>db_chat_history := db_chat_history s @
           [\<lparr>ch_chat_id = cid, user_input = t, bot_response = resp, ch_timestamp = utcnow w\<rparr>],
        sent := sent s @ [plain resp]\<rparr>, None)"
  by (simp add: chat_handler_def stmt_defs)

lemma chat_handler_gemini_failure:
  "gemini_chat w = Inl e \<Longrightarrow> apology_raises w = None \<Longrightarrow>
   chat_handler w cid t s =
     (s\<lparr>sent := sent s @ [plain ''Sorry, I couldn't process that right now.''],
        log := log s @ [(ERROR, ''Gemini API error: '' @ exn_str e)]\<rparr>, None)"
  by (simp add: chat_handler_def stmt_defs)

lemma chat_handler_history:
  "db_chat_history (fst (chat_handler w cid t s)) = db_chat_history s \<or>
   (\<exists>resp. gemini_chat w = Inr resp \<and>
      db_chat_history (fst (chat_handler w cid t s)) = db_chat_history s @
        [\<lparr>ch_chat_id = cid, user_input = t, bot_response = resp, ch_timestamp = utcnow w\<rparr>])"
  by (auto simp: chat_handler_def stmt_defs split: option.splits sum.splits)

text \<open>
  C1, as the code has it. When the generative call, the insert and the reply all succeed,
  exactly one record is appended, with the input and the generated response, and the
  response is the reply. When the generative call fails and the apology can be sent,
  nothing is appended, the failure is logged and the apology is the reply. In every
  run the history is either unchanged or extended by one complete record.
\<close>
theorem chat_handler_outcomes:
  "(gemini_chat w = Inr resp \<and> insert_one_raises w = None \<and> reply_raises w = None \<longrightarrow>
      chat_handler w cid t s =
        (s\<lparr>db_chat_history := db_chat_history s @
              [\<lparr>ch_chat_id = cid, user_input = t, bot_response = resp, ch_timestamp = utcnow w\<rparr>],
           sent := sent s @ [plain resp]\<rparr>, None)) \<and>
   (gemini_chat w = Inl e \<and> apology_raises w = None \<longrightarrow>
      chat_handler w cid t s =
        (s\<lparr>sent := sent s @ [plain ''Sorry, I couldn't process that right now.''],
           log := log s @ [(ERROR, ''Gemini API error: '' @ exn_str e)]\<rparr>, None)) \<and>
   (db_chat_history (fst (chat_handler w cid t s)) = db_chat_history s \<or>
    (\<exists>r. gemini_chat w = Inr r \<and>
       db_chat_history (fst (chat_handler w cid t s)) = db_chat_history s @
         [\<lparr>ch_chat_id = cid, user_input = t, bot_response = r, ch_timestamp = utcnow w\<rparr>]))"
  using chat_handler_success [of w resp cid t s] chat_handler_gemini_failure [of w e cid t s]
    chat_handler_history [of w cid t s]
  by blast

text \<open>Both outcomes on the message \<^verbatim>\<open>hello\<close>.\<close>
theorem chat_handler_outcomes_witness:
  "chat_handler w_ok 7 ''hello'' init_bot =
     (init_bot\<lparr>db_chat_history :=
         [\<lparr>ch_chat_id = 7, user_input = ''hello'', bot_response = ''hi there'',
           ch_timestamp = 1700000000\<rparr>],
        sent := [plain ''hi there'']\<rparr>, None) \<and>
   chat_handler w_gemini_fails 7 ''hello'' init_bot =
     (init_bot\<lparr>sent := [plain ''Sorry, I couldn't process that right now.''],
        log := [(ERROR, ''Gemini API error: 503 unavailable'')]\<rparr>, None)"
proof -
  have a: "gemini_chat w_ok = Inr ''hi there'' \<and> insert_one_raises w_ok = None \<and>
      reply_raises w_ok = None"
    by (simp add: w_ok_def)
  have b: "gemini_chat w_gemini_fails = Inl (Failure ''503 unavailable'') \<and>
      apology_raises w_gemini_fails = None"
    by (simp add: w_gemini_fails_def w_ok_def)
  from a chat_handler_outcomes [of w_ok "''hi there''" 7 "''hello''" init_bot]
  have "chat_handler w_ok 7 ''hello'' init_bot =
     (init_bot\<lparr>db_chat_history := db_chat_history init_bot @
         [\<lparr>ch_chat_id = 7, user_input = ''hello'', bot_response = ''hi there'',
           ch_timestamp = utcnow w_ok\<rparr>],
        sent := sent init_bot @ [plain ''hi there'']\<rparr>, None)"
    by blast
  moreover from b chat_handler_outcomes [of w_gemini_fails _ 7 "''hello''" init_bot "Failure ''503 unavailable''"]
  have "chat_handler w_gemini_fails 7 ''hello'' init_bot =
     (init_bot\<lparr>sent := sent init_bot @ [plain ''Sorry, I couldn't process that right now.''],
        log := log init_bot @ [(ERROR, ''Gemini API error: '' @ exn_str (Failure ''503 unavailable''))]\<rparr>, None)"
    by blast
  ultimately show ?thesis by (simp add: init_bot_def w_ok_def)
qed

text \<open>
  C1 as stated fails: the generative call succeeds, the record is written, and the
  reply is the apology because sending the response raised. The run is neither a
  record with the response delivered nor no record with an apology.
\<close>
theorem chat_handler_dichotomy_counterexample:
  "gemini_chat w_reply_fails = Inr ''hi there'' \<and>
   \<not> ((length (db_chat_history (fst (chat_handler w_reply_fails 7 ''hello'' init_bot))) = 1 \<and>
        user_input (last (db_chat_history (fst (chat_handler w_reply_fails 7 ''hello'' init_bot)))) = ''hello'' \<and>
        sent (fst (chat_handler w_reply_fails 7 ''hello'' init_bot)) = [plain ''hi there'']) \<or>
       (db_chat_history (fst (chat_handler w_reply_fails 7 ''hello'' init_bot)) = [] \<and>
        sent (fst (chat_handler w_reply_fails 7 ''hello'' init_bot)) =
          [plain ''Sorry, I couldn't process that right now.'']))"
  by (simp add: chat_handler_def stmt_defs w_reply_fails_def w_ok_def init_bot_def plain_def)

text \<open>
  C8. When the generative call and the insert succeed and sending the response raises,
  the record stays in the history, the failure is logged under the generative call's
  message, and the apology is sent in place of the response: delivered when that send
  succeeds, and otherwise its exception leaves the handler with nothing delivered.
\<close>
theorem chat_handler_record_without_delivery:
  assumes "gemini_chat w = Inr resp" and "insert_one_raises w = None" and "reply_raises w = Some e"
  shows "db_chat_history (fst (chat_handler w cid t s)) = db_chat_history s @
           [\<lparr>ch_chat_id = cid, user_input = t, bot_response = resp, ch_timestamp = utcnow w\<rparr>] \<and>
         log (fst (chat_handler w cid t s)) = log s @ [(ERROR, ''Gemini API error: '' @ exn_str e)] \<and>
         (apology_raises w = None \<longrightarrow>
            sent (fst (chat_handler w cid t s)) =
              sent s @ [plain ''Sorry, I couldn't process that right now.''] \<and>
            snd (chat_handler w cid t s) = None) \<and>
         (apology_raises w = Some e' \<longrightarrow>
            sent (fst (chat_handler w cid t s)) = sent s \<and>
            snd (chat_handler w cid t s) = Some e')"
  using assms by (cases "apology_raises w") (simp_all add: chat_handler_def stmt_defs)

text \<open>The response is too long to send; the record is kept and the user reads an apology.\<close>
theorem chat_handler_record_without_delivery_witness:
  "db_chat_history (fst (chat_handler w_reply_fails 7 ''hello'' init_bot)) =
     [\<lparr>ch_chat_id = 7, user_input = ''hello'', bot_response = ''hi there'',
       ch_timestamp = 1700000000\<rparr>] \<and>
   sent (fst (chat_handler w_reply_fails 7 ''hello'' init_bot)) =
     [plain ''Sorry, I couldn't process that right now.''] \<and>
   snd (chat_handler w_reply_fails 7 ''hello'' init_bot) = None"
proof -
  have h1: "gemini_chat w_reply_fails = Inr ''hi there''"
    and h2: "insert_one_raises w_reply_fails = None"
    and h3: "reply_raises w_reply_fails = Some (Failure ''Message is too long'')"
    and h4: "apology_raises w_reply_fails = None"
    by (simp_all add: w_reply_fails_def w_ok_def)
  from h4 chat_handler_record_without_delivery [OF h1 h2 h3, of 7 "''hello''" init_bot]
  show ?thesis by (simp add: init_bot_def w_reply_fails_def w_ok_def)
qed

lemma users_update_one_no_match:
  "(\<forall>uid. k = Some uid \<longrightarrow> uid \<notin> chat_id ` set us) \<Longrightarrow> users_update_one k p us = us"
  by (induction us) auto

lemma users_find_one_updated:
  "users_find_one uid (users_update_one (Some uid) p us) =
     map_option (\<lambda>r. r\<lparr>phone_number := Some p\<rparr>) (users_find_one uid us)"
  by (induction us) (auto simp: users_find_one_def)

lemma users_find_one_other:
  "k \<noteq> Some uid \<Longrightarrow> users_find_one uid (users_update_one k p us) = users_find_one uid us"
  by (induction us) (auto simp: users_find_one_def)

lemma users_update_one_nth:
  "i < length us \<Longrightarrow> Some (chat_id (us ! i)) \<noteq> k \<Longrightarrow> users_update_one k p us ! i = us ! i"
proof (induction us arbitrary: i)
  case Nil
  then show ?case by simp
next
  case (Cons u us)
  then show ?case by (cases i) auto
qed

lemma users_update_one_all_matching:
  "distinct (map chat_id us) \<Longrightarrow> r \<in> set (users_update_one (Some uid) p us) \<Longrightarrow>
   chat_id r = uid \<Longrightarrow> phone_number r = Some p"
proof (induction us)
  case Nil
  then show ?case by simp
next
  case (Cons u us)
  show ?case
  proof (cases "chat_id u = uid")
    case True
    with Cons.prems show ?thesis by (auto intro: rev_image_eqI)
  next
    case False
    with Cons show ?thesis by auto
  qed
qed

lemma contact_handler_ok:
  "update_one_raises w = None \<Longrightarrow> reply_raises w = None \<Longrightarrow>
   contact_handler w c s =
     (s\<lparr>db_users := users_update_one (contact_user_id c) (contact_phone_number c) (db_users s),
        sent := sent s @ [plain ''Thank you! Your phone number has been saved.'']\<rparr>, None)"
  by (simp add: contact_handler_def stmt_defs)

text \<open>
  C4. When the store and the platform answer, a shared contact whose \<^verbatim>\<open>user_id\<close> has
  a row leaves that row, looked up by its key, with the shared number; under the
  invariant every row of that key has it. When no row matches, the handler returns
  without an exception and changes nothing but the replies. In both cases no row is
  created and the thank-you reply is sent.
\<close>
theorem contact_handler_sets_phone:
  assumes "update_one_raises w = None" and "reply_raises w = None"
  shows "(contact_user_id c = Some uid \<and> users_find_one uid (db_users s) = Some row \<longrightarrow>
            users_find_one uid (db_users (fst (contact_handler w c s))) =
              Some (row\<lparr>phone_number := Some (contact_phone_number c)\<rparr>)) \<and>
         (contact_user_id c = Some uid \<and> users_unique s \<longrightarrow>
            (\<forall>r \<in> set (db_users (fst (contact_handler w c s))).
               chat_id r = uid \<longrightarrow> phone_number r = Some (contact_phone_number c))) \<and>
         ((\<forall>k. contact_user_id c = Some k \<longrightarrow> k \<notin> chat_id ` set (db_users s)) \<longrightarrow>
            contact_handler w c s =
              (s\<lparr>sent := sent s @ [plain ''Thank you! Your phone number has been saved.'']\<rparr>,
               None)) \<and>
         map chat_id (db_users (fst (contact_handler w c s))) = map chat_id (db_users s) \<and>
         sent (fst (contact_handler w c s)) =
           sent s @ [plain ''Thank you! Your phone number has been saved.''] \<and>
         snd (contact_handler w c s) = None"
proof -
  note ok = contact_handler_ok [OF assms, of c s]
  have found: "users_find_one uid (db_users (fst (contact_handler w c s))) =
      Some (row\<lparr>phone_number := Some (contact_phone_number c)\<rparr>)"
    if "contact_user_id c = Some uid" and "users_find_one uid (db_users s) = Some row"
    using that by (simp add: ok users_find_one_updated)
  have every: "\<forall>r \<in> set (db_users (fst (contact_handler w c s))).
      chat_id r = uid \<longrightarrow> phone_number r = Some (contact_phone_number c)"
    if "contact_user_id c = Some uid" and "users_unique s"
    using that users_update_one_all_matching [of "db_users s" _ uid "contact_phone_number c"]
    by (auto simp: ok users_unique_def)
  have absent: "contact_handler w c s =
      (s\<lparr>sent := sent s @ [plain ''Thank you! Your phone number has been saved.'']\<rparr>, None)"
    if "\<forall>k. contact_user_id c = Some k \<longrightarrow> k \<notin> chat_id ` set (db_users s)"
    using users_update_one_no_match [OF that, of "contact_phone_number c"] by (simp add: ok)
  have rest: "map chat_id (db_users (fst (contact_handler w c s))) = map chat_id (db_users s)"
    "sent (fst (contact_handler w c s)) =
       sent s @ [plain ''Thank you! Your phone number has been saved.'']"
    "snd (contact_handler w c s) = None"
    by (simp_all add: ok chat_ids_users_update_one)
  from found every absent rest show ?thesis by blast
qed

text \<open>Alice's contact is shared, then the contact of somebody who never registered.\<close>
theorem contact_handler_sets_phone_witness:
  "db_users (fst (contact_handler w_ok alice_contact two_users)) =
     [\<lparr>first_name = ''Alice'', username = Some ''alice'', chat_id = 1,
       phone_number = Some ''+1555''\<rparr>,
      \<lparr>first_name = ''Bob'', username = None, chat_id = 2, phone_number = None\<rparr>] \<and>
   users_find_one 1 (db_users (fst (contact_handler w_ok alice_contact two_users))) =
     Some \<lparr>first_name = ''Alice'', username = Some ''alice'', chat_id = 1,
       phone_number = Some ''+1555''\<rparr> \<and>
   contact_handler w_ok stranger_contact two_users =
     (two_users\<lparr>sent := [plain ''Thank you! Your phone number has been saved.'']\<rparr>, None)"
proof -
  have h1: "update_one_raises w_ok = None" and h2: "reply_raises w_ok = None"
    by (simp_all add: w_ok_def)
  have f: "contact_user_id alice_contact = Some 1 \<and>
      users_find_one 1 (db_users two_users) =
        Some \<lparr>first_name = ''Alice'', username = Some ''alice'', chat_id = 1, phone_number = None\<rparr>"
    by (simp add: alice_contact_def two_users_def users_find_one_def)
  have a: "\<forall>k. contact_user_id stranger_contact = Some k \<longrightarrow> k \<notin> chat_id ` set (db_users two_users)"
    by (simp add: stranger_contact_def two_users_def)
  have d: "db_users (fst (contact_handler w_ok alice_contact two_users)) =
     [\<lparr>first_name = ''Alice'', username = Some ''alice'', chat_id = 1,
       phone_number = Some ''+1555''\<rparr>,
      \<lparr>first_name = ''Bob'', username = None, chat_id = 2, phone_number = None\<rparr>]"
    by (simp add: contact_handler_def stmt_defs w_ok_def alice_contact_def two_users_def)
  from f contact_handler_sets_phone [OF h1 h2, of alice_contact 1 two_users]
  have "users_find_one 1 (db_users (fst (contact_handler w_ok alice_contact two_users))) =
     Some (\<lparr>first_name = ''Alice'', username = Some ''alice'', chat_id = 1, phone_number = None\<rparr>
       \<lparr>phone_number := Some (contact_phone_number alice_contact)\<rparr>)"
    by blast
  moreover from a contact_handler_sets_phone [OF h1 h2, of stranger_contact _ two_users]
  have "contact_handler w_ok stranger_contact two_users =
     (two_users\<lparr>sent := sent two_users @ [plain ''Thank you! Your phone number has been saved.'']\<rparr>, None)"
    by blast
  ultimately show ?thesis using d by (simp add: alice_contact_def two_users_def init_bot_def)
qed

text \<open>
  C9. The contact handler reads the contact and nothing of the sender. Whatever the
  collaborators answer, the users collection keeps its length, every row whose
  \<^verbatim>\<open>chat_id\<close> differs from the contact's \<^verbatim>\<open>user_id\<close> is unchanged, the sender's
  own row among them when the contact is somebody else's, the outcome is the same
  for every sender, and the other collections are untouched.
\<close>
theorem contact_handler_frame:
  "length (db_users (fst (contact_handler w c s))) = length (db_users s) \<and>
   (\<forall>i < length (db_users s).
      Some (chat_id (db_users s ! i)) \<noteq> contact_user_id c \<longrightarrow>
      db_users (fst (contact_handler w c s)) ! i = db_users s ! i) \<and>
   (contact_user_id c \<noteq> Some sender \<longrightarrow>
      users_find_one sender (db_users (fst (dispatch w (ContactMessage sender c) s))) =
        users_find_one sender (db_users s)) \<and>
   dispatch w (ContactMessage sender c) s = dispatch w (ContactMessage sender' c) s \<and>
   db_chat_history (fst (contact_handler w c s)) = db_chat_history s \<and>
   db_files (fst (contact_handler w c s)) = db_files s \<and>
   db_web_search (fst (contact_handler w c s)) = db_web_search s"
  by (cases "update_one_raises w"; cases "reply_raises w")
     (simp_all add: contact_handler_def stmt_defs length_users_update_one users_update_one_nth
        users_find_one_other)

text \<open>Bob shares Alice's contact: Bob's row is as it was.\<close>
theorem contact_handler_frame_witness:
  "contact_user_id alice_contact \<noteq> Some 2 \<and>
   users_find_one 2 (db_users (fst (dispatch w_ok bob_shares_alice two_users))) =
     Some \<lparr>first_name = ''Bob'', username = None, chat_id = 2, phone_number = None\<rparr> \<and>
   db_users (fst (contact_handler w_ok alice_contact two_users)) ! 1 = db_users two_users ! 1"
proof -
  have h: "contact_user_id alice_contact \<noteq> Some 2" by (simp add: alice_contact_def)
  have i: "(1::nat) < length (db_users two_users) \<and>
      Some (chat_id (db_users two_users ! 1)) \<noteq> contact_user_id alice_contact"
    by (simp add: two_users_def alice_contact_def)
  from h i contact_handler_frame [of w_ok alice_contact two_users 2 2]
  have "users_find_one 2 (db_users (fst (dispatch w_ok (ContactMessage 2 alice_contact) two_users))) =
        users_find_one 2 (db_users two_users)"
    and "db_users (fst (contact_handler w_ok alice_contact two_users)) ! 1 = db_users two_users ! 1"
    by blast+
  with h show ?thesis
    by (simp add: bob_shares_alice_def two_users_def users_find_one_def)
qed


lemma join_Cons: "xs \<noteq> [] \<Longrightarrow> join sep (x # xs) = x @ sep @ join sep xs"
  by (cases xs) simp_all

lemma join_append:
  "xs \<noteq> [] \<Longrightarrow> ys \<noteq> [] \<Longrightarrow> join sep (xs @ ys) = join sep xs @ sep @ join sep ys"
proof (induction xs)
  case Nil
  then show ?case by simp
next
  case (Cons x xs)
  show ?case
  proof (cases "xs = []")
    case True
    with Cons.prems show ?thesis by (simp add: join_Cons)
  next
    case False
    with Cons show ?thesis by (simp add: join_Cons)
  qed
qed

lemma length_join:
  "length (join sep xs) = sum_list (map length xs) + length sep * (length xs - 1)"
  by (induction sep xs rule: join.induct) simp_all

lemma join_replicate_empty: "join '' '' (replicate (Suc n) []) = replicate n CHR '' ''"
proof (induction n)
  case 0
  then show ?case by simp
next
  case (Suc n)
  have "join '' '' (replicate (Suc (Suc n)) []) = '' '' @ join '' '' (replicate (Suc n) [])"
    by (simp add: join_Cons)
  with Suc show ?case by simp
qed

lemma sublist_search_results: "sublist q (search_results_for q)"
  unfolding search_results_for_def sublist_def by (metis append.assoc)

lemma web_search_ok:
  "insert_one_raises w = None \<Longrightarrow> reply_raises w = None \<Longrightarrow> join '' '' args \<noteq> [] \<Longrightarrow>
   web_search w cid args s =
     (s\<lparr>db_web_search := db_web_search s @
           [\<lparr>ws_chat_id = cid, query = join '' '' args,
             results = search_results_for (join '' '' args), ws_timestamp = utcnow w\<rparr>],
        sent := sent s @ [plain (search_results_for (join '' '' args))]\<rparr>, None)"
  by (simp add: web_search_def stmt_defs Let_def)

lemma web_search_usage:
  "reply_raises w = None \<Longrightarrow> join '' '' args = [] \<Longrightarrow>
   web_search w cid args s =
     (s\<lparr>sent := sent s @ [plain ''Please provide a query after /websearch.'']\<rparr>, None)"
  by (simp add: web_search_def stmt_defs Let_def)

lemma web_search_recorded:
  "insert_one_raises w = None \<Longrightarrow> join '' '' args \<noteq> [] \<Longrightarrow>
   db_web_search (fst (web_search w cid args s)) = db_web_search s @
     [\<lparr>ws_chat_id = cid, query = join '' '' args,
       results = search_results_for (join '' '' args), ws_timestamp = utcnow w\<rparr>]"
  by (cases "reply_raises w"; cases "apology_raises w")
     (simp_all add: web_search_def stmt_defs Let_def)

lemma web_search_records:
  "db_web_search (fst (web_search w cid args s)) = db_web_search s \<or>
   db_web_search (fst (web_search w cid args s)) = db_web_search s @
     [\<lparr>ws_chat_id = cid, query = join '' '' args,
       results = search_results_for (join '' '' args), ws_timestamp = utcnow w\<rparr>]"
  by (cases "insert_one_raises w"; cases "reply_raises w"; cases "apology_raises w")
     (simp_all add: web_search_def stmt_defs Let_def)

text \<open>
  C5. When the store and the platform answer, \<^verbatim>\<open>/websearch\<close> without arguments
  sends the usage reply and writes nothing, and a non-empty joined query appends
  exactly one record with that query and sends a reply that contains it.
\<close>
theorem web_search_usage_or_record:
  assumes "insert_one_raises w = None" and "reply_raises w = None"
  shows "web_search w cid [] s =
           (s\<lparr>sent := sent s @ [plain ''Please provide a query after /websearch.'']\<rparr>, None) \<and>
         (join '' '' args \<noteq> [] \<longrightarrow>
            web_search w cid args s =
              (s\<lparr>db_web_search := db_web_search s @
                    [\<lparr>ws_chat_id = cid, query = join '' '' args,
                      results = search_results_for (join '' '' args),
                      ws_timestamp = utcnow w\<rparr>],
                 sent := sent s @ [plain (search_results_for (join '' '' args))]\<rparr>, None) \<and>
            sublist (join '' '' args) (msg_text (plain (search_results_for (join '' '' args)))))"
  using web_search_usage [OF assms(2), of "[]" cid s] web_search_ok [OF assms, of args cid s]
    sublist_search_results [of "join '' '' args"]
  by (simp add: plain_def)

text \<open>No arguments, then \<^verbatim>\<open>weather today\<close>.\<close>
theorem web_search_usage_or_record_witness:
  "web_search w_ok 7 [] init_bot =
     (init_bot\<lparr>sent := [plain ''Please provide a query after /websearch.'']\<rparr>, None) \<and>
   web_search w_ok 7 [''weather'', ''today''] init_bot =
     (init_bot\<lparr>db_web_search :=
         [\<lparr>ws_chat_id = 7, query = ''weather today'',
           results = search_results_for ''weather today'', ws_timestamp = 1700000000\<rparr>],
        sent := [plain (search_results_for ''weather today'')]\<rparr>, None) \<and>
   sublist ''weather today'' (search_results_for ''weather today'')"
proof -
  have h1: "insert_one_raises w_ok = None" and h2: "reply_raises w_ok = None"
    by (simp_all add: w_ok_def)
  have q: "join '' '' [''weather'', ''today''] = ''weather today''" by simp
  from web_search_usage_or_record [OF h1 h2, of 7 init_bot "[''weather'', ''today'']"]
  show ?thesis unfolding q by (simp add: init_bot_def w_ok_def plain_def)
qed

lemma split_from_tokens:
  "\<forall>c \<in> set cur. \<not> sp c \<Longrightarrow> tok \<in> set (split_from sp cur t) \<Longrightarrow>
   tok \<noteq> [] \<and> (\<forall>c \<in> set tok. \<not> sp c)"
proof (induction t arbitrary: cur)
  case Nil
  then show ?case by (simp split: if_splits)
next
  case (Cons c cs)
  show ?case
  proof (cases "sp c")
    case True
    show ?thesis
    proof (cases "cur = []")
      case True
      with \<open>sp c\<close> Cons.prems(2) have "tok \<in> set (split_from sp [] cs)" by simp
      with Cons.IH [of "[]"] show ?thesis by simp
    next
      case False
      with \<open>sp c\<close> Cons.prems(2) have "tok = cur \<or> tok \<in> set (split_from sp [] cs)" by simp
      with Cons.IH [of "[]"] Cons.prems(1) False show ?thesis by auto
    qed
  next
    case False
    with Cons.prems(2) have "tok \<in> set (split_from sp (cur @ [c]) cs)" by simp
    moreover from False Cons.prems(1) have "\<forall>x \<in> set (cur @ [c]). \<not> sp x" by simp
    ultimately show ?thesis using Cons.IH [of "cur @ [c]"] by blast
  qed
qed

lemma split_from_word:
  "\<forall>c \<in> set x. \<not> sp c \<Longrightarrow> split_from sp cur (x @ t) = split_from sp (cur @ x) t"
  by (induction x arbitrary: cur) simp_all


lemma py_split_tokens:
  "tok \<in> set (py_split sp t) \<Longrightarrow> tok \<noteq> [] \<and> (\<forall>c \<in> set tok. \<not> sp c)"
  using split_from_tokens [of "[]" sp tok t] by (simp add: py_split_def)

lemma command_args_tokens:
  "tok \<in> set (command_args sp t) \<Longrightarrow> tok \<noteq> [] \<and> (\<forall>c \<in> set tok. \<not> sp c)"
proof -
  assume "tok \<in> set (command_args sp t)"
  then have "tok \<in> set (py_split sp t)"
    unfolding command_args_def by (cases "py_split sp t") simp_all
  then show ?thesis by (rule py_split_tokens)
qed

lemma py_split_join:
  assumes sp: "sp CHR '' ''"
  shows "(\<And>tok. tok \<in> set toks \<Longrightarrow> tok \<noteq> [] \<and> (\<forall>c \<in> set tok. \<not> sp c)) \<Longrightarrow>
         py_split sp (join '' '' toks) = toks"
proof (induction toks)
  case Nil
  then show ?case by (simp add: py_split_def)
next
  case (Cons x toks)
  from Cons.prems [of x] have x: "x \<noteq> []" "\<forall>c \<in> set x. \<not> sp c" by simp_all
  have ih: "py_split sp (join '' '' toks) = toks"
  proof (rule Cons.IH)
    fix tok
    assume "tok \<in> set toks"
    then have "tok \<in> set (x # toks)" by simp
    then show "tok \<noteq> [] \<and> (\<forall>c \<in> set tok. \<not> sp c)" by (rule Cons.prems)
  qed
  show ?case
  proof (cases "toks = []")
    case True
    have "split_from sp [] (x @ []) = split_from sp ([] @ x) []"
      using x(2) by (rule split_from_word)
    with x(1) True show ?thesis by (simp add: py_split_def)
  next
    case False
    then have j: "join '' '' (x # toks) = x @ (CHR '' '' # join '' '' toks)"
      by (simp add: join_Cons)
    have "split_from sp [] (x @ (CHR '' '' # join '' '' toks)) =
        split_from sp ([] @ x) (CHR '' '' # join '' '' toks)"
      using x(2) by (rule split_from_word)
    also have "\<dots> = x # split_from sp [] (join '' '' toks)"
      using x(1) sp by simp
    finally show ?thesis using ih unfolding j by (simp add: py_split_def)
  qed
qed

text \<open>
  C10. The query is the argument tokens joined by one space each. Whatever the
  collaborators answer, the only record the handler can append has that query; when
  they answer, the reply is built from it. Joining puts exactly one space between
  two runs of tokens, and the query is as long as the tokens together plus one for
  each gap. Two or more empty tokens give a non-empty query of spaces only, which is
  recorded when the insert succeeds. The arguments that the library cuts out of a
  command text are non-empty and free of whitespace, so the query made of them
  splits into the same arguments again: every run of whitespace of the text has
  become one space.
\<close>
theorem web_search_query_is_join:
  "(db_web_search (fst (web_search w cid args s)) = db_web_search s \<or>
    db_web_search (fst (web_search w cid args s)) = db_web_search s @
      [\<lparr>ws_chat_id = cid, query = join '' '' args,
        results = search_results_for (join '' '' args), ws_timestamp = utcnow w\<rparr>]) \<and>
   (insert_one_raises w = None \<and> reply_raises w = None \<and> join '' '' args \<noteq> [] \<longrightarrow>
      sent (fst (web_search w cid args s)) =
        sent s @ [plain (search_results_for (join '' '' args))]) \<and>
   (xs \<noteq> [] \<and> ys \<noteq> [] \<longrightarrow> join '' '' (xs @ ys) = join '' '' xs @ '' '' @ join '' '' ys) \<and>
   length (join '' '' args) = sum_list (map length args) + (length args - 1) \<and>
   (2 \<le> n \<and> insert_one_raises w = None \<longrightarrow>
      join '' '' (replicate n []) = replicate (n - 1) CHR '' '' \<and>
      join '' '' (replicate n []) \<noteq> [] \<and>
      db_web_search (fst (web_search w cid (replicate n []) s)) = db_web_search s @
        [\<lparr>ws_chat_id = cid, query = replicate (n - 1) CHR '' '',
          results = search_results_for (replicate (n - 1) CHR '' ''),
          ws_timestamp = utcnow w\<rparr>]) \<and>
   (\<forall>tok \<in> set (command_args sp t). tok \<noteq> [] \<and> (\<forall>c \<in> set tok. \<not> sp c)) \<and>
   (sp CHR '' '' \<longrightarrow> py_split sp (join '' '' (command_args sp t)) = command_args sp t)"
proof -
  have tokens: "\<forall>tok \<in> set (command_args sp t). tok \<noteq> [] \<and> (\<forall>c \<in> set tok. \<not> sp c)"
    using command_args_tokens [of _ sp t] by blast
  have again: "py_split sp (join '' '' (command_args sp t)) = command_args sp t" if "sp CHR '' ''"
    using that by (rule py_split_join) (rule command_args_tokens)
  have spaces: "join '' '' (replicate n []) = replicate (n - 1) CHR '' '' \<and>
      join '' '' (replicate n []) \<noteq> [] \<and>
      db_web_search (fst (web_search w cid (replicate n []) s)) = db_web_search s @
        [\<lparr>ws_chat_id = cid, query = replicate (n - 1) CHR '' '',
          results = search_results_for (replicate (n - 1) CHR '' ''),
          ws_timestamp = utcnow w\<rparr>]"
    if n: "2 \<le> n" and ins: "insert_one_raises w = None"
  proof -
    from n obtain m where m: "n = Suc (Suc m)" by (metis Suc_le_D numeral_2_eq_2 Suc_le_mono)
    then have j: "join '' '' (replicate n []) = replicate (n - 1) CHR '' ''"
      using join_replicate_empty [of "Suc m"] by simp
    with m have ne: "join '' '' (replicate n []) \<noteq> []" by simp
    from web_search_recorded [OF ins ne, of cid s] j ne show ?thesis by simp
  qed
  from web_search_records [of w cid args s] web_search_ok [of w args cid s]
    join_append [of xs ys "'' ''"] length_join [of "'' ''" args] spaces tokens again
  show ?thesis by simp
qed

text \<open>Two words, two empty tokens, and a command typed with three spaces in a row.\<close>
theorem web_search_query_is_join_witness:
  "join '' '' [''weather'', ''today''] = ''weather'' @ '' '' @ ''today'' \<and>
   join '' '' [[], []] = '' '' \<and>
   db_web_search (fst (web_search w_ok 7 [[], []] init_bot)) =
     [\<lparr>ws_chat_id = 7, query = '' '', results = search_results_for '' '',
       ws_timestamp = 1700000000\<rparr>] \<and>
   sent (fst (web_search w_ok 7 [[], []] init_bot)) = [plain (search_results_for '' '')] \<and>
   join '' '' (command_args py_space ''/websearch weather   today'') = ''weather today'' \<and>
   py_split py_space ''weather today'' = command_args py_space ''/websearch weather   today''"
proof -
  have h: "insert_one_raises w_ok = None \<and> reply_raises w_ok = None \<and> join '' '' [[], []] \<noteq> []"
    by (simp add: w_ok_def)
  have r: "replicate 2 [] = [[], []::string]" by (simp add: numeral_2_eq_2)
  have x: "[''weather''] \<noteq> [] \<and> [''today''] \<noteq> []" by simp
  have sp: "py_space CHR '' ''" by (simp add: py_space_def)
  have a: "command_args py_space ''/websearch weather   today'' = [''weather'', ''today'']"
    by (simp add: command_args_def py_split_def py_space_def)
  from h x sp
    web_search_query_is_join [of w_ok 7 "[[], []]" init_bot "[''weather'']" "[''today'']" 2
      py_space "''/websearch weather   today''"]
  show ?thesis unfolding r a by (simp add: init_bot_def w_ok_def)
qed

lemma file_handler_download_raises:
  "pick_file doc photo = Inr file \<Longrightarrow> download_raises w = Some e \<Longrightarrow>
   file_handler w cid doc photo s = (s, Some e)"
  by (simp add: file_handler_def stmt_defs)

lemma file_handler_insert_raises:
  "pick_file doc photo = Inr file \<Longrightarrow> download_raises w = None \<Longrightarrow>
   insert_one_raises w = Some e \<Longrightarrow> apology_raises w = None \<Longrightarrow>
   file_handler w cid doc photo s =
     (s\<lparr>local_files := local_files s @ [file],
        sent := sent s @ [plain ''Sorry, I couldn't analyze the file.''],
        log := log s @ [(ERROR, ''File analysis error: '' @ exn_str e)]\<rparr>, None)"
  by (simp add: file_handler_def stmt_defs Let_def)

text \<open>
  C6. The download is made before the \<^verbatim>\<open>try\<close> block: when it raises, the exception
  leaves the handler, nothing is logged and no apology is sent.
\<close>
theorem file_handler_download_failure_propagates:
  "file_handler w_download_fails 7 (Some (Document (Some ''report.pdf''))) [] init_bot =
     (init_bot, Some (Failure ''Timed out'')) \<and>
   sent (fst (file_handler w_download_fails 7 (Some (Document (Some ''report.pdf''))) [] init_bot)) = [] \<and>
   log (fst (file_handler w_download_fails 7 (Some (Document (Some ''report.pdf''))) [] init_bot)) = []"
  by (simp add: file_handler_def stmt_defs pick_file_def w_download_fails_def w_ok_def init_bot_def Let_def)

text \<open>
  C7. A document without a declared file name has the attribute \<^verbatim>\<open>file_name\<close> set
  to \<^verbatim>\<open>None\<close>: the default is not taken, the record's \<^verbatim>\<open>file_name\<close> is null and
  the reply speaks of \<^verbatim>\<open>None\<close>.
\<close>
theorem file_handler_unnamed_document:
  "file_handler w_ok 7 (Some (Document None)) [] init_bot =
     (init_bot\<lparr>db_files :=
         [\<lparr>file_name = None, f_chat_id = 7,
           description = ''Analysis of None completed by Gemini AI.'',
           f_timestamp = 1700000000\<rparr>],
        local_files := [DocumentFile (Document None)],
        sent := [plain ''File analyzed: Analysis of None completed by Gemini AI.'']\<rparr>, None)"
  by (simp add: file_handler_def stmt_defs pick_file_def w_ok_def init_bot_def Let_def)


end
